theory Spec2Isabelle
  imports Complex_Main "HOL-Library.Word" "HOL-Library.AList"
begin

unbundle bit_operations_syntax

section \<open>Python values and objects\<close>

text \<open>
  The handlers of \<^verbatim>\<open>workout_api/atleta/controller.py\<close> move data around as
  dictionaries: \<^verbatim>\<open>model_dump()\<close> of a schema, keyword arguments of a model
  constructor, \<^verbatim>\<open>setattr\<close> by field name. An object is therefore its attribute
  dictionary, an association list in insertion order. Strings are UTF-8 byte sequences,
  a UUID is its 128-bit number, a timestamp is a number of microseconds, and a float is
  only ever stored and compared, never computed with.
\<close>

type_synonym uuid = "128 word"

datatype val =
    VStr string
  | VInt int
  | VFloat real
  | VUuid uuid
  | VDatetime int
  | VDict "(string \<times> val) list"
  | VNone

type_synonym obj = "(string \<times> val) list"

definition getattr :: "obj \<Rightarrow> string \<Rightarrow> val option" where
  "getattr a k = map_of a k"

definition setattr :: "obj \<Rightarrow> string \<Rightarrow> val \<Rightarrow> obj" where
  "setattr a k v = AList.update k v a"

text \<open>\<^verbatim>\<open>model_dump(exclude={...})\<close>: the dictionary without the excluded keys.\<close>

definition exclude :: "string list \<Rightarrow> obj \<Rightarrow> obj" where
  "exclude ks a = filter (\<lambda>kv. fst kv \<notin> set ks) a"

subsection \<open>\<^verbatim>\<open>str(uuid)\<close>: 32 lower-case hex digits in groups 8-4-4-4-12\<close>

definition hex_digit :: "nat \<Rightarrow> char" where
  "hex_digit n = ''0123456789abcdef'' ! (n mod 16)"

definition hex_field :: "uuid \<Rightarrow> nat \<Rightarrow> nat \<Rightarrow> string" where
  "hex_field u first n =
     map (\<lambda>k. hex_digit (unat (drop_bit (4 * (31 - k)) u AND 15))) [first..<first + n]"

definition str_uuid :: "uuid \<Rightarrow> string" where
  "str_uuid u =
     hex_field u 0 8 @ ''-'' @ hex_field u 8 4 @ ''-'' @ hex_field u 12 4 @ ''-''
       @ hex_field u 16 4 @ ''-'' @ hex_field u 20 12"

section \<open>Schemas and tables\<close>

text \<open>
  Modelled from the spec: a row of \<^verbatim>\<open>CategoriaModel\<close> or of
  \<^verbatim>\<open>CentroTreinamentoModel\<close> (their modules are not among the sources). The handler
  reads two columns of either: the name it looks a row up by and the primary key it
  stores in the athlete.
\<close>

record ref_model =
  pk_id :: int
  nome :: string

text \<open>
  Modelled from the spec: the schema \<^verbatim>\<open>AtletaIn\<close> of
  \<^verbatim>\<open>workout_api/atleta/schemas.py\<close>, which is not among the sources. Its fields are
  the attributes the spec's data model lists: name, CPF, sex, weight, height, and the
  category and the training centre, each given by name (\<^verbatim>\<open>atleta_in.categoria.nome\<close>,
  \<^verbatim>\<open>atleta_in.centro_treinamento.nome\<close>).
\<close>

record atleta_in =
  nome :: string
  cpf :: string
  sexo :: string
  peso :: real
  altura :: real
  categoria :: string
  centro_treinamento :: string

definition model_dump :: "atleta_in \<Rightarrow> obj" where
  "model_dump a =
     [(''nome'', VStr (atleta_in.nome a)),
      (''cpf'', VStr (cpf a)),
      (''sexo'', VStr (sexo a)),
      (''peso'', VFloat (peso a)),
      (''altura'', VFloat (altura a)),
      (''categoria'', VDict [(''nome'', VStr (categoria a))]),
      (''centro_treinamento'', VDict [(''nome'', VStr (centro_treinamento a))])]"

text \<open>
  The backing store: the two reference tables and the athlete table, whose rows are the
  attribute dictionaries of \<^verbatim>\<open>AtletaModel\<close> in storage order.
\<close>

record database =
  categorias :: "ref_model list"
  centros_treinamento :: "ref_model list"
  atletas :: "obj list"

section \<open>The session\<close>

text \<open>
  \<^verbatim>\<open>AsyncSession\<close> is SQLAlchemy's unit of work. The model keeps what the handlers
  can observe of it: the changes registered and not yet flushed, whether its transaction
  has failed and still awaits \<^verbatim>\<open>rollback\<close>, and the sequence of transaction calls
  made. A loaded row is handled by its position in the table.
\<close>

datatype exc = IntegrityError | OtherException

datatype change = Insert obj | Update nat obj | Delete nat

datatype call = Add | Del | Commit | Rollback

record session = database +
  pending :: "change list"
  needs_rollback :: bool
  calls :: "call list"

text \<open>\<^verbatim>\<open>get_db\<close> yields a fresh session on the store for each request.\<close>

definition get_db :: "database \<Rightarrow> session" where
  "get_db db =
     \<lparr>categorias = categorias db, centros_treinamento = centros_treinamento db,
      atletas = atletas db, pending = [], needs_rollback = False, calls = []\<rparr>"

text \<open>
  Modelled from the spec: the uniqueness constraint of \<^verbatim>\<open>AtletaModel\<close>
  (\<^verbatim>\<open>workout_api/atleta/models.py\<close> is not among the sources): "CPF is unique across
  all athletes (enforced at the storage layer)". A row without a CPF string collides
  with nothing.
\<close>

definition cpf_of :: "obj \<Rightarrow> string option" where
  "cpf_of a = (case getattr a ''cpf'' of Some (VStr c) \<Rightarrow> Some c | _ \<Rightarrow> None)"

definition cpf_conflict :: "obj \<Rightarrow> obj list \<Rightarrow> bool" where
  "cpf_conflict a rows =
     (case cpf_of a of None \<Rightarrow> False | Some c \<Rightarrow> Some c \<in> set (map cpf_of rows))"

text \<open>
  One statement of the flush. An insert appends a row, an update rewrites the row at its
  position and is checked against the constraint only when it changes the CPF, a delete
  removes the row. A statement on a row that is no longer there fails.
\<close>

fun apply_change :: "change \<Rightarrow> obj list \<Rightarrow> exc + obj list" where
  "apply_change (Insert a) rows =
     (if cpf_conflict a rows then Inl IntegrityError else Inr (rows @ [a]))"
| "apply_change (Update i a) rows =
     (if \<not> i < length rows then Inl OtherException
      else if cpf_of a \<noteq> cpf_of (rows ! i) \<and> cpf_conflict a rows then Inl IntegrityError
      else Inr (rows[i := a]))"
| "apply_change (Delete i) rows =
     (if \<not> i < length rows then Inl OtherException
      else Inr (take i rows @ drop (Suc i) rows))"

fun flush :: "change list \<Rightarrow> obj list \<Rightarrow> exc + obj list" where
  "flush [] rows = Inr rows"
| "flush (c # cs) rows =
     (case apply_change c rows of Inl e \<Rightarrow> Inl e | Inr rows' \<Rightarrow> flush cs rows')"

definition session_add :: "session \<Rightarrow> obj \<Rightarrow> session" where
  "session_add s a = s\<lparr>pending := pending s @ [Insert a], calls := calls s @ [Add]\<rparr>"

definition session_delete :: "session \<Rightarrow> nat \<Rightarrow> session" where
  "session_delete s i = s\<lparr>pending := pending s @ [Delete i], calls := calls s @ [Del]\<rparr>"

text \<open>
  \<^verbatim>\<open>commit\<close> flushes the registered changes in one transaction: all of them reach the
  table or none does. Its first argument is the exception the store raises on its own
  while the changes are flushed, if any (a lost connection, a constraint other than the
  CPF's). When the flush fails the session drops the changes it had registered and the
  table stays as it was, but the session's transaction is left failed: it awaits
  \<^verbatim>\<open>rollback\<close>. No handler uses a session after a failed commit other than to
  roll it back.
\<close>

definition session_commit :: "exc option \<Rightarrow> session \<Rightarrow> (exc + unit) \<times> session" where
  "session_commit raised s =
     (let s1 = s\<lparr>calls := calls s @ [Commit]\<rparr> in
      case raised of
        Some e \<Rightarrow> (Inl e, s1\<lparr>pending := [], needs_rollback := True\<rparr>)
      | None \<Rightarrow>
          (case flush (pending s1) (atletas s1) of
             Inl e \<Rightarrow> (Inl e, s1\<lparr>pending := [], needs_rollback := True\<rparr>)
           | Inr rows \<Rightarrow> (Inr (), s1\<lparr>atletas := rows, pending := []\<rparr>)))"

definition session_rollback :: "session \<Rightarrow> session" where
  "session_rollback s =
     s\<lparr>pending := [], needs_rollback := False, calls := calls s @ [Rollback]\<rparr>"

text \<open>\<^verbatim>\<open>.scalars().first()\<close>: the first row that satisfies the filter, or \<^verbatim>\<open>None\<close>.\<close>

fun first_index :: "('a \<Rightarrow> bool) \<Rightarrow> 'a list \<Rightarrow> nat option" where
  "first_index P [] = None"
| "first_index P (x # xs) = (if P x then Some 0 else map_option Suc (first_index P xs))"

definition select_atleta_by_id :: "session \<Rightarrow> uuid \<Rightarrow> (nat \<times> obj) option" where
  "select_atleta_by_id s i =
     map_option (\<lambda>n. (n, atletas s ! n))
       (first_index (\<lambda>a. getattr a ''id'' = Some (VUuid i)) (atletas s))"

section \<open>HTTP results\<close>

definition HTTP_200_OK :: nat where "HTTP_200_OK = 200"
definition HTTP_204_NO_CONTENT :: nat where "HTTP_204_NO_CONTENT = 204"
definition HTTP_303_SEE_OTHER :: nat where "HTTP_303_SEE_OTHER = 303"
definition HTTP_400_BAD_REQUEST :: nat where "HTTP_400_BAD_REQUEST = 400"
definition HTTP_404_NOT_FOUND :: nat where "HTTP_404_NOT_FOUND = 404"
definition HTTP_500_INTERNAL_SERVER_ERROR :: nat where "HTTP_500_INTERNAL_SERVER_ERROR = 500"

text \<open>
  A handler either returns its value or raises: an \<^verbatim>\<open>HTTPException\<close> with a status
  and a detail, or an exception it does not catch, which the framework answers with its
  default server error. \<open>status_code\<close> is the status of the response, given the status
  the route declares for success.
\<close>

datatype failure = HTTPException nat string | Unhandled exc

fun status_code :: "nat \<Rightarrow> failure + 'a \<Rightarrow> nat" where
  "status_code ok (Inr v) = ok"
| "status_code ok (Inl (HTTPException c d)) = c"
| "status_code ok (Inl (Unhandled e)) = HTTP_500_INTERNAL_SERVER_ERROR"

section \<open>The handlers\<close>

text \<open>
  What a call of \<^verbatim>\<open>post\<close> takes from outside the request: the value of
  \<^verbatim>\<open>uuid4()\<close>, the value of \<^verbatim>\<open>datetime.utcnow()\<close>, and the exception the store
  raises during the commit, if it raises one of its own.
\<close>

record env =
  uuid4 :: uuid
  utcnow :: int
  raised :: "exc option"

definition post :: "env \<Rightarrow> session \<Rightarrow> atleta_in \<Rightarrow> (failure + obj) \<times> session" where
  "post e db_session atleta_in =
     (let categoria_nome = categoria atleta_in;
          centro_treinamento_nome = centro_treinamento atleta_in
      in
      case find (\<lambda>c. ref_model.nome c = categoria_nome) (categorias db_session) of
        None \<Rightarrow>
          (Inl (HTTPException HTTP_400_BAD_REQUEST
             (''A categoria '' @ categoria_nome @ '' n'' @ [CHR 0xC3, CHR 0xA3]
                @ ''o foi encontrada.'')), db_session)
      | Some categoria_row \<Rightarrow>
          (case find (\<lambda>c. ref_model.nome c = centro_treinamento_nome)
                  (centros_treinamento db_session) of
             None \<Rightarrow>
               (Inl (HTTPException HTTP_400_BAD_REQUEST
                  (''O centro de treinamento '' @ centro_treinamento_nome @ '' n''
                     @ [CHR 0xC3, CHR 0xA3] @ ''o foi encontrado.'')), db_session)
           | Some centro_treinamento_row \<Rightarrow>
               (let atleta_out =
                      (''id'', VUuid (uuid4 e)) # (''created_at'', VDatetime (utcnow e))
                        # model_dump atleta_in;
                    atleta_model = exclude [''categoria'', ''centro_treinamento''] atleta_out;
                    atleta_model =
                      setattr atleta_model ''categoria_id'' (VInt (pk_id categoria_row));
                    atleta_model =
                      setattr atleta_model ''centro_treinamento_id''
                        (VInt (pk_id centro_treinamento_row));
                    s1 = session_add db_session atleta_model
                in
                case session_commit (raised e) s1 of
                  (Inr u, s2) \<Rightarrow> (Inr atleta_out, s2)
                | (Inl IntegrityError, s2) \<Rightarrow>
                    (Inl (HTTPException HTTP_303_SEE_OTHER
                       (''J'' @ [CHR 0xC3, CHR 0xA1]
                          @ '' existe um atleta cadastrado com o cpf: '' @ cpf atleta_in)),
                     session_rollback s2)
                | (Inl OtherException, s2) \<Rightarrow>
                    (Inl (HTTPException HTTP_500_INTERNAL_SERVER_ERROR
                       ''Ocorreu um erro ao inserir os dados no banco''), s2))))"

text \<open>
  \<^verbatim>\<open>if nome: query = query.filter(AtletaModel.nome == nome)\<close>: a filter is added
  for a parameter that is truthy, that is, neither \<^verbatim>\<open>None\<close> nor the empty string.
\<close>

definition filter_if :: "string \<Rightarrow> string option \<Rightarrow> obj list \<Rightarrow> obj list" where
  "filter_if column x q =
     (case x of
        None \<Rightarrow> q
      | Some v \<Rightarrow> if v = [] then q else filter (\<lambda>a. getattr a column = Some (VStr v)) q)"

text \<open>
  \<^verbatim>\<open>AtletaOut.model_validate\<close> belongs to the schema module, which is not among the
  sources; \<^verbatim>\<open>query\<close> takes it as a parameter.
\<close>

definition query :: "(obj \<Rightarrow> 'a) \<Rightarrow> session \<Rightarrow> string option \<Rightarrow> string option \<Rightarrow> 'a list" where
  "query model_validate db_session nome_param cpf_param =
     (let q = atletas db_session;
          q = filter_if ''nome'' nome_param q;
          q = filter_if ''cpf'' cpf_param q
      in map model_validate q)"

text \<open>
  Modelled from the spec: \<^verbatim>\<open>paginate\<close> of the pagination helper, "given a filtered
  query and page/size parameters, returns a bounded slice plus total-count metadata".
  Pages are numbered from 1.
\<close>

record page_out =
  page_items :: "obj list"
  page_total :: nat
  page_number :: nat
  page_size :: nat

definition paginate :: "nat \<Rightarrow> nat \<Rightarrow> obj list \<Rightarrow> page_out" where
  "paginate number sz q =
     \<lparr>page_items = take sz (drop ((number - 1) * sz) q), page_total = length q,
      page_number = number, page_size = sz\<rparr>"

definition query_paginated ::
  "nat \<Rightarrow> nat \<Rightarrow> session \<Rightarrow> string option \<Rightarrow> string option \<Rightarrow> page_out" where
  "query_paginated number sz db_session nome_param cpf_param =
     (let q = atletas db_session;
          q = filter_if ''nome'' nome_param q;
          q = filter_if ''cpf'' cpf_param q
      in paginate number sz q)"

definition not_found :: "uuid \<Rightarrow> failure" where
  "not_found i =
     HTTPException HTTP_404_NOT_FOUND
       (''Atleta n'' @ [CHR 0xC3, CHR 0xA3] @ ''o encontrado no id: '' @ str_uuid i)"

definition get :: "uuid \<Rightarrow> session \<Rightarrow> failure + obj" where
  "get i db_session =
     (case select_atleta_by_id db_session i of
        None \<Rightarrow> Inl (not_found i)
      | Some (n, atleta) \<Rightarrow> Inr atleta)"

text \<open>
  \<^verbatim>\<open>atleta_up.model_dump(exclude_unset=True)\<close> is the dictionary of the fields the
  request body sets; \<^verbatim>\<open>patch\<close> takes its items. The loop assigns them in order to
  the loaded row, which the session then holds as changed; a loop over no items leaves
  nothing to flush. \<^verbatim>\<open>refresh\<close> reads the row back from the table.

  \<^verbatim>\<open>patch\<close> and \<^verbatim>\<open>delete\<close> catch nothing: what their commit raises leaves the
  handler as it is. The failures the store raises on its own are an input of
  \<^verbatim>\<open>post\<close> alone, the one handler with a branch for them; here the commit raises
  only what the flush raises.
\<close>

definition patch :: "uuid \<Rightarrow> session \<Rightarrow> (string \<times> val) list \<Rightarrow> (failure + obj) \<times> session" where
  "patch i db_session atleta_update =
     (case select_atleta_by_id db_session i of
        None \<Rightarrow> (Inl (not_found i), db_session)
      | Some (n, atleta) \<Rightarrow>
          (let atleta' = fold (\<lambda>(key, value) a. setattr a key value) atleta_update atleta;
               s1 = (if atleta_update = [] then db_session
                     else db_session\<lparr>pending := pending db_session @ [Update n atleta']\<rparr>)
           in
           case session_commit None s1 of
             (Inl ex, s2) \<Rightarrow> (Inl (Unhandled ex), s2)
           | (Inr u, s2) \<Rightarrow> (Inr (atletas s2 ! n), s2)))"

definition delete :: "uuid \<Rightarrow> session \<Rightarrow> (failure + unit) \<times> session" where
  "delete i db_session =
     (case select_atleta_by_id db_session i of
        None \<Rightarrow> (Inl (not_found i), db_session)
      | Some (n, atleta) \<Rightarrow>
          (case session_commit None (session_delete db_session n) of
             (Inl ex, s2) \<Rightarrow> (Inl (Unhandled ex), s2)
           | (Inr u, s2) \<Rightarrow> (Inr (), s2)))"

text \<open>The store a session leaves behind, as the next request's \<^verbatim>\<open>get_db\<close> finds it.\<close>

definition store :: "session \<Rightarrow> database" where
  "store s =
     \<lparr>categorias = categorias s, centros_treinamento = centros_treinamento s,
      atletas = atletas s\<rparr>"

section \<open>Example data\<close>

definition ex_db0 :: database where
  "ex_db0 =
     \<lparr>categorias = [\<lparr>pk_id = 1, nome = ''Scale''\<rparr>],
      centros_treinamento = [\<lparr>pk_id = 7, nome = ''CT King''\<rparr>],
      atletas = []\<rparr>"

definition ex_jane_in :: atleta_in where
  "ex_jane_in =
     \<lparr>nome = ''Jane'', cpf = ''12345678900'', sexo = ''F'', peso = 60.5, altura = 1.65,
      categoria = ''Scale'', centro_treinamento = ''CT King''\<rparr>"


definition ex_jane_row :: obj where
  "ex_jane_row =
     [(''id'', VUuid 0x123e4567e89b42d3a456426614174000),
      (''created_at'', VDatetime 1700000000000000),
      (''nome'', VStr ''Jane''), (''cpf'', VStr ''12345678900''), (''sexo'', VStr ''F''),
      (''peso'', VFloat 60.5), (''altura'', VFloat 1.65),
      (''categoria_id'', VInt 1), (''centro_treinamento_id'', VInt 7)]"

definition ex_john_row :: obj where
  "ex_john_row =
     [(''id'', VUuid 0x9b2c1f0e5d6a4b7c8e9f001122334455),
      (''created_at'', VDatetime 1700000000500000),
      (''nome'', VStr ''John''), (''cpf'', VStr ''98765432100''), (''sexo'', VStr ''M''),
      (''peso'', VFloat 82), (''altura'', VFloat 1.8),
      (''categoria_id'', VInt 1), (''centro_treinamento_id'', VInt 7)]"

definition ex_db1 :: database where
  "ex_db1 = ex_db0\<lparr>atletas := [ex_jane_row]\<rparr>"

definition ex_db2 :: database where
  "ex_db2 = ex_db0\<lparr>atletas := [ex_jane_row, ex_john_row]\<rparr>"

definition ex_env :: env where
  "ex_env =
     \<lparr>uuid4 = 0x0f8fad5bd9cb469fa16570867728950e, utcnow = 1700000001000000,
      raised = None\<rparr>"

section \<open>Lookups and attribute updates\<close>

lemma first_index_None: "first_index P xs = None \<longleftrightarrow> (\<forall>x\<in>set xs. \<not> P x)"
  by (induction xs) auto

lemma first_index_Some:
  "first_index P xs = Some n \<Longrightarrow> n < length xs \<and> P (xs ! n) \<and> (\<forall>j<n. \<not> P (xs ! j))"
proof (induction xs arbitrary: n)
  case Nil
  then show ?case by simp
next
  case (Cons x xs)
  show ?case
  proof (cases "P x")
    case True
    with Cons.prems show ?thesis by simp
  next
    case False
    with Cons.prems obtain m where m: "first_index P xs = Some m" "n = Suc m"
      by auto
    from Cons.IH[OF m(1)] False m(2) show ?thesis
      by (auto simp: less_Suc_eq_0_disj)
  qed
qed



lemma find_first_index: "map_option (\<lambda>n. xs ! n) (first_index P xs) = find P xs"
  by (induction xs) (auto simp: option.map_comp comp_def)

lemma find_None_image: "find (\<lambda>c. f c = k) xs = None \<longleftrightarrow> k \<notin> f ` set xs"
  by (auto simp: find_None_iff)

text \<open>Removing a row that does not match leaves the first match what it was.\<close>

lemma find_remove_other:
  "n < length xs \<Longrightarrow> \<not> P (xs ! n) \<Longrightarrow> find P (take n xs @ drop (Suc n) xs) = find P xs"
proof (induction xs arbitrary: n)
  case Nil
  then show ?case by simp
next
  case (Cons x xs)
  then show ?case
    by (cases n) auto
qed

lemma distinct_removed:
  assumes "distinct (map f xs)" and "n < length xs"
  shows "f (xs ! n) \<notin> f ` set (take n xs @ drop (Suc n) xs)"
proof -
  have "xs = take n xs @ xs ! n # drop (Suc n) xs"
    using assms(2) by (rule id_take_nth_drop)
  then have "distinct (map f (take n xs @ xs ! n # drop (Suc n) xs))"
    using assms(1) by simp
  then show ?thesis
    by auto
qed

text \<open>The loop of \<^verbatim>\<open>patch\<close>: the items override the row's attributes, later items first.\<close>

lemma map_of_fold_setattr:
  "map_of (fold (\<lambda>(key, value) a. setattr a key value) upd a) = map_of a ++ map_of (rev upd)"
proof (induction upd arbitrary: a)
  case Nil
  then show ?case by simp
next
  case (Cons kv upd)
  obtain k v where kv: "kv = (k, v)" by (cases kv)
  have "map_of (fold (\<lambda>(key, value) a. setattr a key value) (kv # upd) a) =
        map_of (setattr a k v) ++ map_of (rev upd)"
    unfolding kv using Cons.IH[of "setattr a k v"] by simp
  also have "map_of (setattr a k v) = (map_of a)(k \<mapsto> v)"
    by (simp add: setattr_def update_conv')
  also have "(map_of a)(k \<mapsto> v) ++ map_of (rev upd) = map_of a ++ map_of (rev (kv # upd))"
    by (simp add: kv fun_eq_iff map_add_def split: option.splits)
  finally show ?case .
qed

lemma getattr_fold_frame:
  "k \<notin> fst ` set upd \<Longrightarrow>
     getattr (fold (\<lambda>(key, value) a. setattr a key value) upd a) k = getattr a k"
  by (simp add: getattr_def map_of_fold_setattr map_add_def map_of_eq_None_iff[THEN iffD2]
      split: option.splits)

lemma getattr_fold_given:
  "map_of (rev upd) k = Some v \<Longrightarrow>
     getattr (fold (\<lambda>(key, value) a. setattr a key value) upd a) k = Some v"
  by (simp add: getattr_def map_of_fold_setattr map_add_def)

lemma getattr_setattr:
  "getattr (setattr a k v) k' = (if k' = k then Some v else getattr a k')"
  by (simp add: getattr_def setattr_def update_conv')

lemma cpf_of_setattr_other: "k \<noteq> ''cpf'' \<Longrightarrow> cpf_of (setattr a k v) = cpf_of a"
  by (simp add: cpf_of_def getattr_def setattr_def update_conv')

lemma select_None:
  "select_atleta_by_id s i = None \<longleftrightarrow>
     Some (VUuid i) \<notin> (\<lambda>a. getattr a ''id'') ` set (atletas s)"
  by (force simp: select_atleta_by_id_def first_index_None)

lemma select_Some:
  assumes "select_atleta_by_id s i = Some (n, a)"
  shows "n < length (atletas s)" "a = atletas s ! n" "getattr a ''id'' = Some (VUuid i)"
    "first_index (\<lambda>a. getattr a ''id'' = Some (VUuid i)) (atletas s) = Some n"
  using assms first_index_Some[of "\<lambda>a. getattr a ''id'' = Some (VUuid i)" "atletas s" n]
  by (auto simp: select_atleta_by_id_def)

section \<open>What a commit does to a fresh session\<close>

lemma atletas_get_db [simp]: "atletas (get_db db) = atletas db"
  by (simp add: get_db_def)

lemma pending_get_db [simp]: "pending (get_db db) = []"
  by (simp add: get_db_def)

lemma store_get_db:
  "store ((get_db db)\<lparr>atletas := rows, calls := cs\<rparr>) = db\<lparr>atletas := rows\<rparr>"
  by (simp add: store_def get_db_def)

lemma commit_nothing:
  "session_commit None (get_db db) = (Inr (), (get_db db)\<lparr>calls := [Commit]\<rparr>)"
  by (simp add: session_commit_def get_db_def Let_def)

lemma commit_insert:
  "session_commit r (session_add (get_db db) row) =
     (case r of
        Some x \<Rightarrow> (Inl x, (get_db db)\<lparr>needs_rollback := True, calls := [Add, Commit]\<rparr>)
      | None \<Rightarrow>
          if cpf_conflict row (atletas db)
          then (Inl IntegrityError,
                (get_db db)\<lparr>needs_rollback := True, calls := [Add, Commit]\<rparr>)
          else (Inr (), (get_db db)\<lparr>atletas := atletas db @ [row], calls := [Add, Commit]\<rparr>))"
  by (simp add: session_commit_def session_add_def get_db_def Let_def split: option.splits)

lemma rollback_after_failed_insert:
  "session_rollback ((get_db db)\<lparr>needs_rollback := True, calls := [Add, Commit]\<rparr>) =
     (get_db db)\<lparr>calls := [Add, Commit, Rollback]\<rparr>"
  by (simp add: session_rollback_def get_db_def)

lemma commit_update:
  assumes "n < length (atletas db)"
  shows "session_commit None ((get_db db)\<lparr>pending := [Update n new]\<rparr>) =
     (if cpf_of new \<noteq> cpf_of (atletas db ! n) \<and> cpf_conflict new (atletas db)
      then (Inl IntegrityError, (get_db db)\<lparr>needs_rollback := True, calls := [Commit]\<rparr>)
      else (Inr (), (get_db db)\<lparr>atletas := (atletas db)[n := new], calls := [Commit]\<rparr>))"
  using assms by (simp add: session_commit_def get_db_def Let_def)

lemma commit_delete:
  assumes "n < length (atletas db)"
  shows "session_commit None (session_delete (get_db db) n) =
     (Inr (), (get_db db)\<lparr>atletas := take n (atletas db) @ drop (Suc n) (atletas db),
                 calls := [Del, Commit]\<rparr>)"
  using assms by (simp add: session_commit_def session_delete_def get_db_def Let_def)

section \<open>The handlers, branch by branch\<close>

text \<open>The row \<^verbatim>\<open>post\<close> builds: the input's scalar fields, the id and the timestamp, and
  the two foreign keys in place of the names.\<close>

lemma atleta_model_row:
  "setattr
     (setattr
        (exclude [''categoria'', ''centro_treinamento'']
           ((''id'', VUuid u) # (''created_at'', VDatetime t) # model_dump a))
        ''categoria_id'' (VInt p))
     ''centro_treinamento_id'' (VInt q) =
   [(''id'', VUuid u), (''created_at'', VDatetime t),
    (''nome'', VStr (atleta_in.nome a)), (''cpf'', VStr (cpf a)), (''sexo'', VStr (sexo a)),
    (''peso'', VFloat (peso a)), (''altura'', VFloat (altura a)),
    (''categoria_id'', VInt p), (''centro_treinamento_id'', VInt q)]"
  by (simp add: setattr_def exclude_def model_dump_def)

lemma cpf_conflict_row:
  "cpf_conflict
     [(''id'', VUuid u), (''created_at'', VDatetime t),
      (''nome'', VStr n), (''cpf'', VStr c), (''sexo'', VStr x),
      (''peso'', VFloat w), (''altura'', VFloat h),
      (''categoria_id'', VInt p), (''centro_treinamento_id'', VInt q)] rows
   \<longleftrightarrow> Some c \<in> cpf_of ` set rows"
  by (simp add: cpf_conflict_def cpf_of_def getattr_def)

lemma post_without_categoria:
  assumes "find (\<lambda>c. ref_model.nome c = categoria a) (categorias s) = None"
  shows "post e s a =
        (Inl (HTTPException 400
           (''A categoria '' @ categoria a @ '' n'' @ [CHR 0xC3, CHR 0xA3]
              @ ''o foi encontrada.'')), s)"
  using assms by (simp add: post_def HTTP_400_BAD_REQUEST_def)

lemma post_without_centro_treinamento:
  assumes "find (\<lambda>c. ref_model.nome c = categoria a) (categorias s) = Some c"
    and "find (\<lambda>c. ref_model.nome c = centro_treinamento a) (centros_treinamento s) = None"
  shows "post e s a =
        (Inl (HTTPException 400
           (''O centro de treinamento '' @ centro_treinamento a @ '' n''
              @ [CHR 0xC3, CHR 0xA3] @ ''o foi encontrado.'')), s)"
  using assms by (simp add: post_def HTTP_400_BAD_REQUEST_def)

lemma post_eval:
  assumes "find (\<lambda>c. ref_model.nome c = categoria a) (categorias db) = Some c"
    and "find (\<lambda>c. ref_model.nome c = centro_treinamento a) (centros_treinamento db) = Some ct"
  shows "post e (get_db db) a =
     (let atleta_out =
            (''id'', VUuid (uuid4 e)) # (''created_at'', VDatetime (utcnow e)) # model_dump a;
          row =
            [(''id'', VUuid (uuid4 e)), (''created_at'', VDatetime (utcnow e)),
             (''nome'', VStr (atleta_in.nome a)), (''cpf'', VStr (cpf a)),
             (''sexo'', VStr (sexo a)), (''peso'', VFloat (peso a)),
             (''altura'', VFloat (altura a)),
             (''categoria_id'', VInt (pk_id c)), (''centro_treinamento_id'', VInt (pk_id ct))]
      in
      if raised e = Some OtherException then
        (Inl (HTTPException 500 ''Ocorreu um erro ao inserir os dados no banco''),
         (get_db db)\<lparr>needs_rollback := True, calls := [Add, Commit]\<rparr>)
      else if raised e = Some IntegrityError \<or> Some (cpf a) \<in> cpf_of ` set (atletas db) then
        (Inl (HTTPException 303
           (''J'' @ [CHR 0xC3, CHR 0xA1] @ '' existe um atleta cadastrado com o cpf: '' @ cpf a)),
         (get_db db)\<lparr>calls := [Add, Commit, Rollback]\<rparr>)
      else
        (Inr atleta_out, (get_db db)\<lparr>atletas := atletas db @ [row], calls := [Add, Commit]\<rparr>))"
proof -
  have cats: "categorias (get_db db) = categorias db"
    "centros_treinamento (get_db db) = centros_treinamento db"
    by (simp_all add: get_db_def)
  show ?thesis
  proof (cases "raised e")
    case None
    show ?thesis
      unfolding post_def Let_def cats assms atleta_model_row commit_insert None
      by (simp add: cpf_conflict_row rollback_after_failed_insert
          HTTP_303_SEE_OTHER_def)
  next
    case (Some x)
    show ?thesis
      unfolding post_def Let_def cats assms atleta_model_row commit_insert Some
      by (cases x) (simp_all add: rollback_after_failed_insert
          HTTP_303_SEE_OTHER_def HTTP_500_INTERNAL_SERVER_ERROR_def)
  qed
qed

lemma get_find:
  "get i s =
     (case find (\<lambda>a. getattr a ''id'' = Some (VUuid i)) (atletas s) of
        None \<Rightarrow> Inl (not_found i) | Some a \<Rightarrow> Inr a)"
proof -
  have "find (\<lambda>a. getattr a ''id'' = Some (VUuid i)) (atletas s)
        = map_option snd (select_atleta_by_id s i)"
    by (simp add: select_atleta_by_id_def option.map_comp comp_def find_first_index)
  then show ?thesis
    by (cases "select_atleta_by_id s i") (auto simp: get_def)
qed

lemma patch_eval:
  assumes sel: "select_atleta_by_id (get_db db) i = Some (n, atleta)"
  shows "patch i (get_db db) upd =
     (let new = fold (\<lambda>(key, value) a. setattr a key value) upd atleta in
      if cpf_of new \<noteq> cpf_of atleta \<and> cpf_conflict new (atletas db)
      then (Inl (Unhandled IntegrityError),
            (get_db db)\<lparr>needs_rollback := True, calls := [Commit]\<rparr>)
      else (Inr new, (get_db db)\<lparr>atletas := (atletas db)[n := new], calls := [Commit]\<rparr>))"
proof -
  from select_Some[OF sel] have n: "n < length (atletas db)" and a: "atletas db ! n = atleta"
    by simp_all
  show ?thesis
  proof (cases "upd = []")
    case True
    have "(atletas db)[n := atleta] = atletas db"
      unfolding a[symmetric] by simp
    then have "(get_db db)\<lparr>atletas := (atletas db)[n := atleta], calls := [Commit]\<rparr>
          = (get_db db)\<lparr>calls := [Commit]\<rparr>"
      by (simp add: get_db_def)
    then show ?thesis
      using True a by (simp add: patch_def sel commit_nothing)
  next
    case False
    then show ?thesis
      using n a by (simp add: patch_def sel Let_def commit_update)
  qed
qed

lemma delete_eval:
  assumes "select_atleta_by_id (get_db db) i = Some (n, atleta)"
  shows "delete i (get_db db) =
     (Inr (), (get_db db)\<lparr>atletas := take n (atletas db) @ drop (Suc n) (atletas db),
                 calls := [Del, Commit]\<rparr>)"
  using select_Some(1)[OF assms] by (simp add: delete_def assms commit_delete)

section \<open>The example data, evaluated\<close>

lemma str_uuid_ex_env:
  "str_uuid 0x0f8fad5bd9cb469fa16570867728950e = ''0f8fad5b-d9cb-469f-a165-70867728950e''"
  by code_simp

lemma str_uuid_ex_jane:
  "str_uuid 0x123e4567e89b42d3a456426614174000 = ''123e4567-e89b-42d3-a456-426614174000''"
  by code_simp

lemma ex_db0_fields:
  "categorias ex_db0 = [\<lparr>pk_id = 1, nome = ''Scale''\<rparr>]"
  "centros_treinamento ex_db0 = [\<lparr>pk_id = 7, nome = ''CT King''\<rparr>]"
  "atletas ex_db0 = []"
  by (simp_all add: ex_db0_def)

lemma ex_db1_fields:
  "categorias ex_db1 = [\<lparr>pk_id = 1, nome = ''Scale''\<rparr>]"
  "centros_treinamento ex_db1 = [\<lparr>pk_id = 7, nome = ''CT King''\<rparr>]"
  "atletas ex_db1 = [ex_jane_row]"
  by (simp_all add: ex_db1_def ex_db0_def)

lemma ex_db2_fields:
  "categorias ex_db2 = [\<lparr>pk_id = 1, nome = ''Scale''\<rparr>]"
  "centros_treinamento ex_db2 = [\<lparr>pk_id = 7, nome = ''CT King''\<rparr>]"
  "atletas ex_db2 = [ex_jane_row, ex_john_row]"
  by (simp_all add: ex_db2_def ex_db0_def)

lemma get_db_ex_db1:
  "get_db ex_db1 =
     \<lparr>categorias = [\<lparr>pk_id = 1, nome = ''Scale''\<rparr>],
      centros_treinamento = [\<lparr>pk_id = 7, nome = ''CT King''\<rparr>],
      atletas = [ex_jane_row], pending = [], needs_rollback = False, calls = []\<rparr>"
  by (simp add: get_db_def ex_db1_fields)

lemma ex_jane_in_fields:
  "cpf ex_jane_in = ''12345678900''" "categoria ex_jane_in = ''Scale''"
  "centro_treinamento ex_jane_in = ''CT King''"
  by (simp_all add: ex_jane_in_def)

lemma ex_attrs:
  "getattr ex_jane_row ''id'' = Some (VUuid 0x123e4567e89b42d3a456426614174000)"
  "getattr ex_john_row ''id'' = Some (VUuid 0x9b2c1f0e5d6a4b7c8e9f001122334455)"
  "getattr ex_jane_row ''nome'' = Some (VStr ''Jane'')"
  "getattr ex_john_row ''nome'' = Some (VStr ''John'')"
  "getattr ex_jane_row ''cpf'' = Some (VStr ''12345678900'')"
  "getattr ex_john_row ''cpf'' = Some (VStr ''98765432100'')"
  by (simp_all add: getattr_def ex_jane_row_def ex_john_row_def)

lemma cpf_of_ex_jane_row: "cpf_of ex_jane_row = Some ''12345678900''"
  by (simp add: cpf_of_def ex_attrs)

lemma ex_find_categoria:
  "find (\<lambda>c. ref_model.nome c = categoria ex_jane_in) [\<lparr>pk_id = 1, nome = ''Scale''\<rparr>]
     = Some \<lparr>pk_id = 1, nome = ''Scale''\<rparr>"
  by (simp add: ex_jane_in_fields)

lemma ex_find_centro_treinamento:
  "find (\<lambda>c. ref_model.nome c = centro_treinamento ex_jane_in)
     [\<lparr>pk_id = 7, nome = ''CT King''\<rparr>] = Some \<lparr>pk_id = 7, nome = ''CT King''\<rparr>"
  by (simp add: ex_jane_in_fields)

lemma ex_select_jane:
  "select_atleta_by_id (get_db ex_db2) 0x123e4567e89b42d3a456426614174000
     = Some (0, ex_jane_row)"
  by (simp add: select_atleta_by_id_def ex_db2_fields ex_attrs)

section \<open>Creation: the duplicate CPF\<close>

text \<open>
  C1, as amended. The claim as written speaks of every create request whose CPF is
  already stored; a request that also names a missing category or training centre is
  answered 400 before the store is asked to insert anything (see the counterexample
  below). What holds: for a create request whose category and training centre exist and
  whose CPF is the CPF of a stored athlete, and when the store raises no failure of
  another kind during the commit, \<^verbatim>\<open>post\<close> raises the HTTP error 303 (See Other)
  whose detail is "Ja existe um atleta cadastrado com o cpf: " (with the source's a-acute)
  followed by the CPF. The session it leaves behind is the fresh session with the calls
  add, commit, rollback, in this order: the rollback precedes the raise, nothing is
  registered any more, and the table is the one before the request.
\<close>

theorem post_duplicate_cpf:
  assumes "categoria a \<in> ref_model.nome ` set (categorias db)"
    and "centro_treinamento a \<in> ref_model.nome ` set (centros_treinamento db)"
    and "Some (cpf a) \<in> cpf_of ` set (atletas db)"
    and "raised e \<noteq> Some OtherException"
  shows "post e (get_db db) a =
     (Inl (HTTPException 303
        (''J'' @ [CHR 0xC3, CHR 0xA1] @ '' existe um atleta cadastrado com o cpf: '' @ cpf a)),
      (get_db db)\<lparr>calls := [Add, Commit, Rollback]\<rparr>)"
proof -
  from assms(1) have "find (\<lambda>c. ref_model.nome c = categoria a) (categorias db) \<noteq> None"
    by (simp add: find_None_image)
  then obtain c where
    c: "find (\<lambda>c. ref_model.nome c = categoria a) (categorias db) = Some c"
    by blast
  from assms(2) have
    "find (\<lambda>c. ref_model.nome c = centro_treinamento a) (centros_treinamento db) \<noteq> None"
    by (simp add: find_None_image)
  then obtain ct where
    ct: "find (\<lambda>c. ref_model.nome c = centro_treinamento a) (centros_treinamento db) = Some ct"
    by blast
  note ev = post_eval[OF c ct, of e, unfolded Let_def]
  show ?thesis
    unfolding ev using assms(3,4) by (simp only: if_False if_True simp_thms)
qed

text \<open>Jane is stored; a second request with her CPF, category "Scale", centre "CT King".\<close>

theorem post_duplicate_cpf_witness:
  "post ex_env (get_db ex_db1) ex_jane_in =
     (Inl (HTTPException 303
        (''J'' @ [CHR 0xC3, CHR 0xA1]
           @ '' existe um atleta cadastrado com o cpf: 12345678900'')),
      \<lparr>categorias = [\<lparr>pk_id = 1, nome = ''Scale''\<rparr>],
       centros_treinamento = [\<lparr>pk_id = 7, nome = ''CT King''\<rparr>],
       atletas = [ex_jane_row], pending = [], needs_rollback = False, calls = [Add, Commit, Rollback]\<rparr>)"
  using post_duplicate_cpf [of ex_jane_in ex_db1 ex_env]
  by (simp add: get_db_def ex_db1_fields ex_jane_in_fields cpf_of_ex_jane_row ex_env_def)

text \<open>
  The claim as written fails: the request below carries Jane's stored CPF and the
  category "Elite", which the store does not have; the answer is 400, not 303.
\<close>

theorem post_duplicate_cpf_counterexample:
  "Some (cpf (ex_jane_in\<lparr>categoria := ''Elite''\<rparr>)) \<in> cpf_of ` set (atletas (get_db ex_db1))
   \<and> post ex_env (get_db ex_db1) (ex_jane_in\<lparr>categoria := ''Elite''\<rparr>) =
       (Inl (HTTPException 400
          (''A categoria Elite n'' @ [CHR 0xC3, CHR 0xA3] @ ''o foi encontrada.'')),
        get_db ex_db1)"
proof -
  have "find (\<lambda>c. ref_model.nome c = categoria (ex_jane_in\<lparr>categoria := ''Elite''\<rparr>))
          (categorias (get_db ex_db1)) = None"
    by (simp add: get_db_def ex_db1_fields)
  from post_without_categoria[OF this, of ex_env] show ?thesis
    by (simp add: get_db_def ex_db1_fields ex_jane_in_fields cpf_of_ex_jane_row)
qed

section \<open>Creation: any other failure of the store\<close>

text \<open>
  C2. The store has the category and the centre of the request and raises an exception
  that is not an \<^verbatim>\<open>IntegrityError\<close> during the commit. \<^verbatim>\<open>post\<close> raises the HTTP
  error 500 with the fixed detail, as the claim says, but it does not roll back first:
  the handler for \<^verbatim>\<open>Exception\<close> raises at once, where the handler for
  \<^verbatim>\<open>IntegrityError\<close> above it awaits \<^verbatim>\<open>db_session.rollback()\<close>. The calls
  made on the session are add and commit only, and its failed transaction still awaits
  the rollback.
\<close>

theorem post_other_failure_no_rollback:
  "post (ex_env\<lparr>raised := Some OtherException\<rparr>) (get_db ex_db0) ex_jane_in =
     (Inl (HTTPException 500 ''Ocorreu um erro ao inserir os dados no banco''),
      \<lparr>categorias = [\<lparr>pk_id = 1, nome = ''Scale''\<rparr>],
       centros_treinamento = [\<lparr>pk_id = 7, nome = ''CT King''\<rparr>],
       atletas = [], pending = [], needs_rollback = True, calls = [Add, Commit]\<rparr>)"
proof -
  note c = ex_find_categoria[folded ex_db0_fields(1)]
  note ct = ex_find_centro_treinamento[folded ex_db0_fields(2)]
  show ?thesis
    unfolding post_eval[OF c ct] Let_def
    by (simp add: get_db_def ex_db0_fields ex_jane_in_def ex_env_def)
qed

section \<open>Creation: invalid references\<close>

text \<open>
  C3. A create request that names a category absent from the store fails with status 400
  and the detail "A categoria <name> nao foi encontrada." (with the source's a-tilde),
  whatever its training centre is: the category is looked up first. A request whose
  category exists and whose training centre is absent fails with status 400 and the
  detail "O centro de treinamento <name> nao foi encontrado.". In both cases the session
  is returned as it was: no row is inserted and nothing is registered.
\<close>

theorem post_missing_reference:
  "(categoria a \<notin> ref_model.nome ` set (categorias s) \<longrightarrow>
      post e s a =
        (Inl (HTTPException 400
           (''A categoria '' @ categoria a @ '' n'' @ [CHR 0xC3, CHR 0xA3]
              @ ''o foi encontrada.'')), s))
   \<and> (categoria a \<in> ref_model.nome ` set (categorias s)
        \<and> centro_treinamento a \<notin> ref_model.nome ` set (centros_treinamento s) \<longrightarrow>
      post e s a =
        (Inl (HTTPException 400
           (''O centro de treinamento '' @ centro_treinamento a @ '' n''
              @ [CHR 0xC3, CHR 0xA3] @ ''o foi encontrado.'')), s))"
proof (intro conjI impI)
  assume "categoria a \<notin> ref_model.nome ` set (categorias s)"
  then have "find (\<lambda>c. ref_model.nome c = categoria a) (categorias s) = None"
    by (simp add: find_None_image)
  then show "post e s a =
        (Inl (HTTPException 400
           (''A categoria '' @ categoria a @ '' n'' @ [CHR 0xC3, CHR 0xA3]
              @ ''o foi encontrada.'')), s)"
    by (rule post_without_categoria)
next
  assume h: "categoria a \<in> ref_model.nome ` set (categorias s)
        \<and> centro_treinamento a \<notin> ref_model.nome ` set (centros_treinamento s)"
  then have "find (\<lambda>c. ref_model.nome c = categoria a) (categorias s) \<noteq> None"
    by (simp add: find_None_image)
  then obtain c where c: "find (\<lambda>c. ref_model.nome c = categoria a) (categorias s) = Some c"
    by blast
  from h have "find (\<lambda>c. ref_model.nome c = centro_treinamento a) (centros_treinamento s) = None"
    by (simp add: find_None_image)
  with c show "post e s a =
        (Inl (HTTPException 400
           (''O centro de treinamento '' @ centro_treinamento a @ '' n''
              @ [CHR 0xC3, CHR 0xA3] @ ''o foi encontrado.'')), s)"
    by (rule post_without_centro_treinamento)
qed

text \<open>
  With one athlete, the category "Scale" and the centre "CT King" in the store: a request
  for the category "Elite", then one for the centre "CT Zero".
\<close>

theorem post_missing_reference_witness:
  "post ex_env (get_db ex_db1) (ex_jane_in\<lparr>categoria := ''Elite''\<rparr>) =
     (Inl (HTTPException 400
        (''A categoria Elite n'' @ [CHR 0xC3, CHR 0xA3] @ ''o foi encontrada.'')),
      get_db ex_db1)
   \<and> post ex_env (get_db ex_db1) (ex_jane_in\<lparr>centro_treinamento := ''CT Zero''\<rparr>) =
     (Inl (HTTPException 400
        (''O centro de treinamento CT Zero n'' @ [CHR 0xC3, CHR 0xA3] @ ''o foi encontrado.'')),
      get_db ex_db1)"
  using post_missing_reference [of "ex_jane_in\<lparr>categoria := ''Elite''\<rparr>" "get_db ex_db1" ex_env]
    post_missing_reference
      [of "ex_jane_in\<lparr>centro_treinamento := ''CT Zero''\<rparr>" "get_db ex_db1" ex_env]
  by (simp add: get_db_ex_db1 ex_jane_in_def)

section \<open>Unknown ids\<close>

text \<open>
  C4. When no stored athlete has the requested id, each of \<^verbatim>\<open>get\<close>,
  \<^verbatim>\<open>patch\<close> and \<^verbatim>\<open>delete\<close> raises the HTTP error 404 whose detail is
  "Atleta nao encontrado no id: " (with the source's a-tilde) followed by the id as
  \<^verbatim>\<open>str\<close> prints it, and \<^verbatim>\<open>patch\<close> and \<^verbatim>\<open>delete\<close> hand the session back as
  they received it (\<^verbatim>\<open>get\<close> only reads).
\<close>

theorem not_found_404:
  assumes "Some (VUuid i) \<notin> (\<lambda>a. getattr a ''id'') ` set (atletas s)"
  shows "get i s =
           Inl (HTTPException 404
             (''Atleta n'' @ [CHR 0xC3, CHR 0xA3] @ ''o encontrado no id: '' @ str_uuid i))
       \<and> patch i s atleta_update =
           (Inl (HTTPException 404
             (''Atleta n'' @ [CHR 0xC3, CHR 0xA3] @ ''o encontrado no id: '' @ str_uuid i)), s)
       \<and> delete i s =
           (Inl (HTTPException 404
             (''Atleta n'' @ [CHR 0xC3, CHR 0xA3] @ ''o encontrado no id: '' @ str_uuid i)), s)"
proof -
  from assms have "select_atleta_by_id s i = None"
    by (simp add: select_None)
  then show ?thesis
    by (simp add: get_def patch_def delete_def not_found_def HTTP_404_NOT_FOUND_def)
qed

theorem not_found_404_witness:
  "get 0x0f8fad5bd9cb469fa16570867728950e (get_db ex_db1) =
     Inl (HTTPException 404
       (''Atleta n'' @ [CHR 0xC3, CHR 0xA3]
          @ ''o encontrado no id: 0f8fad5b-d9cb-469f-a165-70867728950e''))
   \<and> patch 0x0f8fad5bd9cb469fa16570867728950e (get_db ex_db1) [(''peso'', VFloat 61)] =
     (Inl (HTTPException 404
       (''Atleta n'' @ [CHR 0xC3, CHR 0xA3]
          @ ''o encontrado no id: 0f8fad5b-d9cb-469f-a165-70867728950e'')), get_db ex_db1)
   \<and> delete 0x0f8fad5bd9cb469fa16570867728950e (get_db ex_db1) =
     (Inl (HTTPException 404
       (''Atleta n'' @ [CHR 0xC3, CHR 0xA3]
          @ ''o encontrado no id: 0f8fad5b-d9cb-469f-a165-70867728950e'')), get_db ex_db1)"
  using not_found_404
    [of "0x0f8fad5bd9cb469fa16570867728950e" "get_db ex_db1" "[(''peso'', VFloat 61)]"]
  by (simp add: ex_db1_fields ex_attrs str_uuid_ex_env)

section \<open>Partial update\<close>

text \<open>
  C5. A \<^verbatim>\<open>patch\<close> request for a stored athlete changes, in the stored row, nothing
  but the fields its body gives: whatever the outcome, every attribute the body does not
  name has the value it had. When the store accepts the commit (it refuses only an
  update that moves the CPF onto the CPF of another row, under the uniqueness constraint)
  \<^verbatim>\<open>patch\<close> returns the row as refreshed from the table, which is the old row with
  each field of the body set to the value the body gives it (the last one, were a key to
  repeat) and every other field as before; the rest of the table is untouched. In
  particular a body that gives only \<^verbatim>\<open>peso\<close> is always accepted, sets the weight, and
  leaves the name, the CPF, the category and the training centre of the row as they were.
\<close>

theorem patch_applies_given_fields_only:
  assumes "select_atleta_by_id (get_db db) i = Some (n, atleta)"
  shows
    "(let new = fold (\<lambda>(key, value) a. setattr a key value) atleta_update atleta in
        (\<forall>k. k \<notin> fst ` set atleta_update \<longrightarrow>
           getattr (atletas (snd (patch i (get_db db) atleta_update)) ! n) k = getattr atleta k)
      \<and> (\<not> (cpf_of new \<noteq> cpf_of atleta \<and> cpf_conflict new (atletas db)) \<longrightarrow>
           patch i (get_db db) atleta_update =
             (Inr new, (get_db db)\<lparr>atletas := (atletas db)[n := new], calls := [Commit]\<rparr>)
           \<and> (\<forall>k v. map_of (rev atleta_update) k = Some v \<longrightarrow> getattr new k = Some v)
           \<and> (\<forall>k. k \<notin> fst ` set atleta_update \<longrightarrow> getattr new k = getattr atleta k)))
     \<and> patch i (get_db db) [(''peso'', w)] =
         (Inr (setattr atleta ''peso'' w),
          (get_db db)\<lparr>atletas := (atletas db)[n := setattr atleta ''peso'' w],
                      calls := [Commit]\<rparr>)
     \<and> getattr (setattr atleta ''peso'' w) ''peso'' = Some w
     \<and> getattr (setattr atleta ''peso'' w) ''nome'' = getattr atleta ''nome''
     \<and> getattr (setattr atleta ''peso'' w) ''cpf'' = getattr atleta ''cpf''
     \<and> getattr (setattr atleta ''peso'' w) ''categoria_id'' = getattr atleta ''categoria_id''
     \<and> getattr (setattr atleta ''peso'' w) ''centro_treinamento_id''
         = getattr atleta ''centro_treinamento_id''"
proof -
  define new where "new = fold (\<lambda>(key, value) a. setattr a key value) atleta_update atleta"
  from select_Some[OF assms] have n: "n < length (atletas db)" and a: "atletas db ! n = atleta"
    by simp_all
  note ev = patch_eval[OF assms, of atleta_update, unfolded Let_def, folded new_def]
  have frame_new: "getattr new k = getattr atleta k" if "k \<notin> fst ` set atleta_update" for k
    unfolding new_def using that by (rule getattr_fold_frame)
  have given: "getattr new k = Some v" if "map_of (rev atleta_update) k = Some v" for k v
    unfolding new_def using that by (rule getattr_fold_given)
  have frame: "getattr (atletas (snd (patch i (get_db db) atleta_update)) ! n) k = getattr atleta k"
    if "k \<notin> fst ` set atleta_update" for k
  proof (cases "cpf_of new \<noteq> cpf_of atleta \<and> cpf_conflict new (atletas db)")
    case True
    have "patch i (get_db db) atleta_update =
      (Inl (Unhandled IntegrityError),
       (get_db db)\<lparr>needs_rollback := True, calls := [Commit]\<rparr>)"
      unfolding ev using True by (simp only: if_True simp_thms)
    then show ?thesis
      using a by simp
  next
    case False
    have "patch i (get_db db) atleta_update =
      (Inr new, (get_db db)\<lparr>atletas := (atletas db)[n := new], calls := [Commit]\<rparr>)"
      unfolding ev using False by (simp only: if_False simp_thms)
    then show ?thesis
      using n frame_new[OF that] by simp
  qed
  have ok: "patch i (get_db db) atleta_update =
             (Inr new, (get_db db)\<lparr>atletas := (atletas db)[n := new], calls := [Commit]\<rparr>)"
    if "\<not> (cpf_of new \<noteq> cpf_of atleta \<and> cpf_conflict new (atletas db))"
    unfolding ev using that by (simp only: if_False simp_thms)
  have peso: "patch i (get_db db) [(''peso'', w)] =
         (Inr (setattr atleta ''peso'' w),
          (get_db db)\<lparr>atletas := (atletas db)[n := setattr atleta ''peso'' w],
                      calls := [Commit]\<rparr>)"
    by (simp add: patch_eval[OF assms] cpf_of_setattr_other Let_def)
  have attrs: "getattr (setattr atleta ''peso'' w) ''peso'' = Some w"
    "getattr (setattr atleta ''peso'' w) ''nome'' = getattr atleta ''nome''"
    "getattr (setattr atleta ''peso'' w) ''cpf'' = getattr atleta ''cpf''"
    "getattr (setattr atleta ''peso'' w) ''categoria_id'' = getattr atleta ''categoria_id''"
    "getattr (setattr atleta ''peso'' w) ''centro_treinamento_id''
         = getattr atleta ''centro_treinamento_id''"
    by (simp_all add: getattr_setattr)
  from frame ok given frame_new peso attrs show ?thesis
    unfolding Let_def new_def[symmetric] by blast
qed

text \<open>Jane and John are stored; Jane's weight is set to 61.\<close>

theorem patch_applies_given_fields_only_witness:
  "patch 0x123e4567e89b42d3a456426614174000 (get_db ex_db2) [(''peso'', VFloat 61)] =
     (Inr [(''id'', VUuid 0x123e4567e89b42d3a456426614174000),
           (''created_at'', VDatetime 1700000000000000),
           (''nome'', VStr ''Jane''), (''cpf'', VStr ''12345678900''), (''sexo'', VStr ''F''),
           (''peso'', VFloat 61), (''altura'', VFloat 1.65),
           (''categoria_id'', VInt 1), (''centro_treinamento_id'', VInt 7)],
      \<lparr>categorias = [\<lparr>pk_id = 1, nome = ''Scale''\<rparr>],
       centros_treinamento = [\<lparr>pk_id = 7, nome = ''CT King''\<rparr>],
       atletas =
         [[(''id'', VUuid 0x123e4567e89b42d3a456426614174000),
           (''created_at'', VDatetime 1700000000000000),
           (''nome'', VStr ''Jane''), (''cpf'', VStr ''12345678900''), (''sexo'', VStr ''F''),
           (''peso'', VFloat 61), (''altura'', VFloat 1.65),
           (''categoria_id'', VInt 1), (''centro_treinamento_id'', VInt 7)],
          ex_john_row],
       pending = [], needs_rollback = False, calls = [Commit]\<rparr>)"
  using patch_applies_given_fields_only
    [OF ex_select_jane, of "[(''peso'', VFloat 61)]" "VFloat 61"]
  apply (simp only: Let_def)
  apply (elim conjE)
  apply (simp add: get_db_def ex_db2_fields setattr_def ex_jane_row_def)
  done

section \<open>Listing\<close>

lemma filter_if_pred:
  "filter_if column x q =
     filter (\<lambda>a. \<forall>v. x = Some v \<and> v \<noteq> [] \<longrightarrow> getattr a column = Some (VStr v)) q"
  by (cases x) (simp_all add: filter_if_def)

text \<open>
  C6, as amended. The claim as written has a filter apply whenever the parameter is
  provided; the handler tests the parameter's truth value, so a parameter provided as the
  empty string filters nothing (see the counterexample below). What holds: whatever the
  store and the request, \<^verbatim>\<open>query\<close> returns, in storage order, the projections of
  exactly the athletes whose name equals the \<^verbatim>\<open>nome\<close> parameter when it is provided
  and not empty, and whose CPF equals the \<^verbatim>\<open>cpf\<close> parameter when it is provided and
  not empty; with both parameters absent it returns the whole table.
\<close>

theorem query_filters:
  "query model_validate s nome_param cpf_param =
     map model_validate
       (filter
          (\<lambda>a. (\<forall>n. nome_param = Some n \<and> n \<noteq> [] \<longrightarrow> getattr a ''nome'' = Some (VStr n))
              \<and> (\<forall>c. cpf_param = Some c \<and> c \<noteq> [] \<longrightarrow> getattr a ''cpf'' = Some (VStr c)))
          (atletas s))
   \<and> query model_validate s None None = map model_validate (atletas s)"
proof -
  have "filter_if ''cpf'' cpf_param (filter_if ''nome'' nome_param (atletas s)) =
     filter
          (\<lambda>a. (\<forall>n. nome_param = Some n \<and> n \<noteq> [] \<longrightarrow> getattr a ''nome'' = Some (VStr n))
              \<and> (\<forall>c. cpf_param = Some c \<and> c \<noteq> [] \<longrightarrow> getattr a ''cpf'' = Some (VStr c)))
          (atletas s)"
    unfolding filter_if_pred by (simp add: conj_commute)
  then show ?thesis
    by (simp add: query_def Let_def filter_if_def)
qed

text \<open>Jane and John are stored: the listing by name, by name and CPF, and without filter.\<close>

theorem query_filters_witness:
  "query id (get_db ex_db2) (Some ''Jane'') None = [ex_jane_row]
   \<and> query id (get_db ex_db2) (Some ''Jane'') (Some ''98765432100'') = []
   \<and> query id (get_db ex_db2) None None = [ex_jane_row, ex_john_row]"
  using query_filters [of id "get_db ex_db2" "Some ''Jane''" None]
    query_filters [of id "get_db ex_db2" "Some ''Jane''" "Some ''98765432100''"]
  apply (elim conjE)
  apply (simp add: ex_db2_fields ex_attrs)
  done

text \<open>
  The claim as written fails: the request below provides the name filter, as the empty
  string, and the listing holds Jane and John, whose names are not the empty string.
\<close>

theorem query_filters_counterexample:
  "query id (get_db ex_db2) (Some '''') None = [ex_jane_row, ex_john_row]
   \<and> getattr ex_jane_row ''nome'' = Some (VStr ''Jane'')
   \<and> getattr ex_john_row ''nome'' = Some (VStr ''John'')"
  by (simp add: query_def filter_if_def ex_db2_fields ex_attrs)

section \<open>Creation: success\<close>




section \<open>Deletion\<close>

text \<open>
  C8. \<^verbatim>\<open>delete\<close> on the id of a stored athlete removes this athlete's row from the
  table and nothing else: the other rows stay, in their order, and the reference tables
  are untouched. It returns no value, and the response status is 204. A \<^verbatim>\<open>get\<close>
  on any other id in a later request answers what it answered before the deletion. The
  ids of the stored athletes being distinct, as the spec's data model has them, a
  \<^verbatim>\<open>get\<close> on the deleted id in a later request raises the HTTP error 404 that names
  the id.
\<close>

theorem delete_removes_row:
  assumes "select_atleta_by_id (get_db db) i = Some (n, atleta)"
  shows
    "delete i (get_db db) =
       (Inr (), (get_db db)\<lparr>atletas := take n (atletas db) @ drop (Suc n) (atletas db),
                   calls := [Del, Commit]\<rparr>)
     \<and> status_code HTTP_204_NO_CONTENT (fst (delete i (get_db db))) = 204
     \<and> (\<forall>j. j \<noteq> i \<longrightarrow>
           get j (get_db (store (snd (delete i (get_db db))))) = get j (get_db db))
     \<and> (distinct (map (\<lambda>a. getattr a ''id'') (atletas db)) \<longrightarrow>
           get i (get_db (store (snd (delete i (get_db db))))) =
             Inl (HTTPException 404
               (''Atleta n'' @ [CHR 0xC3, CHR 0xA3] @ ''o encontrado no id: '' @ str_uuid i)))"
proof -
  let ?rows = "take n (atletas db) @ drop (Suc n) (atletas db)"
  from select_Some[OF assms] have n: "n < length (atletas db)"
    and a: "atletas db ! n = atleta" and ida: "getattr atleta ''id'' = Some (VUuid i)"
    by simp_all
  note ev = delete_eval[OF assms]
  have rows: "atletas (store (snd (delete i (get_db db)))) = ?rows"
    by (simp add: ev store_get_db)
  have st: "status_code HTTP_204_NO_CONTENT (fst (delete i (get_db db))) = 204"
    by (simp add: ev HTTP_204_NO_CONTENT_def)
  have gone: "get i (get_db (store (snd (delete i (get_db db))))) =
         Inl (HTTPException 404
           (''Atleta n'' @ [CHR 0xC3, CHR 0xA3] @ ''o encontrado no id: '' @ str_uuid i))"
    if d: "distinct (map (\<lambda>a. getattr a ''id'') (atletas db))"
  proof -
    have "getattr (atletas db ! n) ''id'' \<notin> (\<lambda>a. getattr a ''id'') ` set ?rows"
      using d n by (rule distinct_removed)
    then have "Some (VUuid i) \<notin> (\<lambda>a. getattr a ''id'') ` set ?rows"
      by (simp add: a ida)
    then have "find (\<lambda>a. getattr a ''id'' = Some (VUuid i)) ?rows = None"
      by (simp add: find_None_image)
    then show ?thesis
      by (simp add: get_find rows not_found_def HTTP_404_NOT_FOUND_def)
  qed
  have others: "get j (get_db (store (snd (delete i (get_db db))))) = get j (get_db db)"
    if "j \<noteq> i" for j
  proof -
    have "\<not> getattr (atletas db ! n) ''id'' = Some (VUuid j)"
      using that by (simp add: a ida)
    with n have "find (\<lambda>a. getattr a ''id'' = Some (VUuid j)) ?rows
        = find (\<lambda>a. getattr a ''id'' = Some (VUuid j)) (atletas db)"
      by (rule find_remove_other)
    then show ?thesis
      by (simp add: get_find rows)
  qed
  from ev st gone others show ?thesis
    by blast
qed

text \<open>Jane and John are stored; Jane is deleted, then both are asked for.\<close>

theorem delete_removes_row_witness:
  "delete 0x123e4567e89b42d3a456426614174000 (get_db ex_db2) =
     (Inr (),
      \<lparr>categorias = [\<lparr>pk_id = 1, nome = ''Scale''\<rparr>],
       centros_treinamento = [\<lparr>pk_id = 7, nome = ''CT King''\<rparr>],
       atletas = [ex_john_row], pending = [], needs_rollback = False, calls = [Del, Commit]\<rparr>)
   \<and> status_code HTTP_204_NO_CONTENT
         (fst (delete 0x123e4567e89b42d3a456426614174000 (get_db ex_db2))) = 204
   \<and> get 0x123e4567e89b42d3a456426614174000
         (get_db (store (snd (delete 0x123e4567e89b42d3a456426614174000 (get_db ex_db2))))) =
       Inl (HTTPException 404
         (''Atleta n'' @ [CHR 0xC3, CHR 0xA3]
            @ ''o encontrado no id: 123e4567-e89b-42d3-a456-426614174000''))
   \<and> get 0x9b2c1f0e5d6a4b7c8e9f001122334455
         (get_db (store (snd (delete 0x123e4567e89b42d3a456426614174000 (get_db ex_db2))))) =
       Inr ex_john_row"
proof -
  have d: "distinct (map (\<lambda>a. getattr a ''id'') (atletas ex_db2))"
    by (simp add: ex_db2_fields ex_attrs)
  have john: "get 0x9b2c1f0e5d6a4b7c8e9f001122334455 (get_db ex_db2) = Inr ex_john_row"
    by (simp add: get_def select_atleta_by_id_def ex_db2_fields ex_attrs)
  show ?thesis
    using delete_removes_row [OF ex_select_jane]
    apply (elim conjE)
    apply (simp add: d john str_uuid_ex_jane)
    apply (simp add: get_db_def ex_db2_fields)
    done
qed

section \<open>Empty filters and empty bodies\<close>

text \<open>
  C9. In \<^verbatim>\<open>query\<close> and in \<^verbatim>\<open>query_paginated\<close> alike, a \<^verbatim>\<open>nome\<close> or a
  \<^verbatim>\<open>cpf\<close> parameter given as the empty string restricts nothing. With the name given
  as the empty string the rows answered are the rows of the table that pass the CPF
  filter alone, whatever their names; with the CPF given as the empty string they are
  the rows that pass the name filter alone; with both given as the empty string they are
  the whole table. \<^verbatim>\<open>query\<close> answers their projections, \<^verbatim>\<open>query_paginated\<close>
  hands exactly these rows to \<^verbatim>\<open>paginate\<close>, so that the total it reports counts
  them all. In each case the answer is the answer to the request without the parameter.
\<close>

theorem empty_string_is_no_filter:
  "query model_validate s (Some '''') cpf_param =
     map model_validate
       (filter (\<lambda>a. \<forall>c. cpf_param = Some c \<and> c \<noteq> [] \<longrightarrow> getattr a ''cpf'' = Some (VStr c))
          (atletas s))
   \<and> query model_validate s nome_param (Some '''') =
     map model_validate
       (filter (\<lambda>a. \<forall>n. nome_param = Some n \<and> n \<noteq> [] \<longrightarrow> getattr a ''nome'' = Some (VStr n))
          (atletas s))
   \<and> query model_validate s (Some '''') (Some '''') = map model_validate (atletas s)
   \<and> query_paginated number sz s (Some '''') cpf_param =
     paginate number sz
       (filter (\<lambda>a. \<forall>c. cpf_param = Some c \<and> c \<noteq> [] \<longrightarrow> getattr a ''cpf'' = Some (VStr c))
          (atletas s))
   \<and> query_paginated number sz s nome_param (Some '''') =
     paginate number sz
       (filter (\<lambda>a. \<forall>n. nome_param = Some n \<and> n \<noteq> [] \<longrightarrow> getattr a ''nome'' = Some (VStr n))
          (atletas s))
   \<and> query_paginated number sz s (Some '''') (Some '''') =
     \<lparr>page_items = take sz (drop ((number - 1) * sz) (atletas s)),
      page_total = length (atletas s), page_number = number, page_size = sz\<rparr>
   \<and> query model_validate s (Some '''') cpf_param = query model_validate s None cpf_param
   \<and> query model_validate s nome_param (Some '''') = query model_validate s nome_param None
   \<and> query_paginated number sz s (Some '''') cpf_param
       = query_paginated number sz s None cpf_param
   \<and> query_paginated number sz s nome_param (Some '''')
       = query_paginated number sz s nome_param None"
proof -
  have no_nome: "filter_if ''nome'' (Some '''') q = q" for q
    by (simp add: filter_if_def)
  have no_cpf: "filter_if ''cpf'' (Some '''') q = q" for q
    by (simp add: filter_if_def)
  have absent: "filter_if column None q = q" for column q
    by (simp add: filter_if_def)
  have q1: "query model_validate s (Some '''') cpf_param =
     map model_validate
       (filter (\<lambda>a. \<forall>c. cpf_param = Some c \<and> c \<noteq> [] \<longrightarrow> getattr a ''cpf'' = Some (VStr c))
          (atletas s))"
    unfolding query_def Let_def no_nome by (simp only: filter_if_pred)
  have q2: "query model_validate s nome_param (Some '''') =
     map model_validate
       (filter (\<lambda>a. \<forall>n. nome_param = Some n \<and> n \<noteq> [] \<longrightarrow> getattr a ''nome'' = Some (VStr n))
          (atletas s))"
    unfolding query_def Let_def no_cpf by (simp only: filter_if_pred)
  have q3: "query model_validate s (Some '''') (Some '''') = map model_validate (atletas s)"
    unfolding query_def Let_def no_nome no_cpf by (rule refl)
  have p1: "query_paginated number sz s (Some '''') cpf_param =
     paginate number sz
       (filter (\<lambda>a. \<forall>c. cpf_param = Some c \<and> c \<noteq> [] \<longrightarrow> getattr a ''cpf'' = Some (VStr c))
          (atletas s))"
    unfolding query_paginated_def Let_def no_nome by (simp only: filter_if_pred)
  have p2: "query_paginated number sz s nome_param (Some '''') =
     paginate number sz
       (filter (\<lambda>a. \<forall>n. nome_param = Some n \<and> n \<noteq> [] \<longrightarrow> getattr a ''nome'' = Some (VStr n))
          (atletas s))"
    unfolding query_paginated_def Let_def no_cpf by (simp only: filter_if_pred)
  have p3: "query_paginated number sz s (Some '''') (Some '''') =
     \<lparr>page_items = take sz (drop ((number - 1) * sz) (atletas s)),
      page_total = length (atletas s), page_number = number, page_size = sz\<rparr>"
    unfolding query_paginated_def Let_def no_nome no_cpf by (simp add: paginate_def)
  have e1: "query model_validate s (Some '''') cpf_param = query model_validate s None cpf_param"
    unfolding query_def Let_def no_nome absent by (rule refl)
  have e2: "query model_validate s nome_param (Some '''') = query model_validate s nome_param None"
    unfolding query_def Let_def no_cpf absent by (rule refl)
  have e3: "query_paginated number sz s (Some '''') cpf_param
       = query_paginated number sz s None cpf_param"
    unfolding query_paginated_def Let_def no_nome absent by (rule refl)
  have e4: "query_paginated number sz s nome_param (Some '''')
       = query_paginated number sz s nome_param None"
    unfolding query_paginated_def Let_def no_cpf absent by (rule refl)
  from q1 q2 q3 p1 p2 p3 e1 e2 e3 e4 show ?thesis
    by (intro conjI)
qed

text \<open>
  Jane and John are stored, and no athlete has an empty name or an empty CPF: the
  listings with an empty name or an empty CPF, and pages of them.
\<close>

theorem empty_string_is_no_filter_witness:
  "query id (get_db ex_db2) (Some '''') None = [ex_jane_row, ex_john_row]
   \<and> query id (get_db ex_db2) (Some '''') (Some ''98765432100'') = [ex_john_row]
   \<and> query id (get_db ex_db2) (Some ''Jane'') (Some '''') = [ex_jane_row]
   \<and> query_paginated 1 1 (get_db ex_db2) (Some '''') (Some '''') =
       \<lparr>page_items = [ex_jane_row], page_total = 2, page_number = 1, page_size = 1\<rparr>
   \<and> query_paginated 2 1 (get_db ex_db2) (Some '''') None =
       \<lparr>page_items = [ex_john_row], page_total = 2, page_number = 2, page_size = 1\<rparr>
   \<and> query_paginated 1 2 (get_db ex_db2) (Some ''John'') (Some '''') =
       \<lparr>page_items = [ex_john_row], page_total = 1, page_number = 1, page_size = 2\<rparr>"
proof -
  note t1 = empty_string_is_no_filter [of id "get_db ex_db2" None "Some ''Jane''" 1 1]
  note t2 =
    empty_string_is_no_filter [of id "get_db ex_db2" "Some ''98765432100''" "Some ''John''" 1 2]
  note t3 = empty_string_is_no_filter [of id "get_db ex_db2" None None 2 1]
  have w1: "query id (get_db ex_db2) (Some '''') None = [ex_jane_row, ex_john_row]"
    using t1[THEN conjunct1] by (simp add: ex_db2_fields)
  have w2: "query id (get_db ex_db2) (Some '''') (Some ''98765432100'') = [ex_john_row]"
    using t2[THEN conjunct1] by (simp add: ex_db2_fields ex_attrs)
  have w3: "query id (get_db ex_db2) (Some ''Jane'') (Some '''') = [ex_jane_row]"
    using t1[THEN conjunct2, THEN conjunct1] by (simp add: ex_db2_fields ex_attrs)
  have w4: "query_paginated 1 1 (get_db ex_db2) (Some '''') (Some '''') =
       \<lparr>page_items = [ex_jane_row], page_total = 2, page_number = 1, page_size = 1\<rparr>"
    using t1[THEN conjunct2, THEN conjunct2, THEN conjunct2, THEN conjunct2, THEN conjunct2,
        THEN conjunct1]
    by (simp add: ex_db2_fields)
  have w5: "query_paginated 2 1 (get_db ex_db2) (Some '''') None =
       \<lparr>page_items = [ex_john_row], page_total = 2, page_number = 2, page_size = 1\<rparr>"
    using t3[THEN conjunct2, THEN conjunct2, THEN conjunct2, THEN conjunct1]
    by (simp add: ex_db2_fields paginate_def)
  have w6: "query_paginated 1 2 (get_db ex_db2) (Some ''John'') (Some '''') =
       \<lparr>page_items = [ex_john_row], page_total = 1, page_number = 1, page_size = 2\<rparr>"
    using t2[THEN conjunct2, THEN conjunct2, THEN conjunct2, THEN conjunct2, THEN conjunct1]
    by (simp add: ex_db2_fields ex_attrs paginate_def)
  from w1 w2 w3 w4 w5 w6 show ?thesis
    by (intro conjI)
qed

text \<open>
  C10. A \<^verbatim>\<open>patch\<close> request for a stored athlete whose body sets no field returns the
  athlete's row as it was, and the response status is 200; the commit has nothing to
  flush, and the store after the request is the store before it.
\<close>

theorem patch_empty_body_identity:
  assumes "select_atleta_by_id (get_db db) i = Some (n, atleta)"
  shows "patch i (get_db db) [] = (Inr atleta, (get_db db)\<lparr>calls := [Commit]\<rparr>)
     \<and> store (snd (patch i (get_db db) [])) = db
     \<and> status_code HTTP_200_OK (fst (patch i (get_db db) [])) = 200"
proof -
  from select_Some[OF assms] have a: "atletas db ! n = atleta"
    by simp
  have same: "(atletas db)[n := atleta] = atletas db"
    unfolding a[symmetric] by simp
  have "(get_db db)\<lparr>atletas := atletas db, calls := [Commit]\<rparr> = (get_db db)\<lparr>calls := [Commit]\<rparr>"
    by (simp add: get_db_def)
  then have ev: "patch i (get_db db) [] = (Inr atleta, (get_db db)\<lparr>calls := [Commit]\<rparr>)"
    by (simp add: patch_eval[OF assms] same)
  have "store ((get_db db)\<lparr>calls := [Commit]\<rparr>) = db"
    by (simp add: store_def get_db_def)
  then show ?thesis
    by (simp add: ev HTTP_200_OK_def)
qed

theorem patch_empty_body_identity_witness:
  "patch 0x123e4567e89b42d3a456426614174000 (get_db ex_db2) [] =
     (Inr ex_jane_row,
      \<lparr>categorias = [\<lparr>pk_id = 1, nome = ''Scale''\<rparr>],
       centros_treinamento = [\<lparr>pk_id = 7, nome = ''CT King''\<rparr>],
       atletas = [ex_jane_row, ex_john_row], pending = [], needs_rollback = False, calls = [Commit]\<rparr>)
   \<and> store (snd (patch 0x123e4567e89b42d3a456426614174000 (get_db ex_db2) [])) = ex_db2
   \<and> status_code HTTP_200_OK
         (fst (patch 0x123e4567e89b42d3a456426614174000 (get_db ex_db2) [])) = 200"
  using patch_empty_body_identity [OF ex_select_jane]
  apply (elim conjE)
  apply (simp add: get_db_def ex_db2_fields)
  done

end
